theory Spec2Isabelle
  imports Main
begin

section \<open>Data model (todo/models.go)\<close>

text \<open>
  The struct \<^verbatim>\<open>Todo\<close> embeds \<^verbatim>\<open>gorm.Model\<close>, whose fields are promoted into it:
  the id (a Go \<^verbatim>\<open>uint\<close>), the two timestamps and the soft-delete marker (a pointer, here
  an option). A point in time is a natural number; \<open>0\<close> is Go's zero time.
\<close>

record Todo =
  ID :: nat
  CreatedAt :: nat
  UpdatedAt :: nat
  DeletedAt :: "nat option"
  Name :: string
  Description :: string
  Status :: string

text \<open>The zero value of the struct: what \<^verbatim>\<open>var todo Todo\<close> and \<^verbatim>\<open>new(Todo)\<close> hold.\<close>

definition zero_Todo :: Todo where
  "zero_Todo = \<lparr>ID = 0, CreatedAt = 0, UpdatedAt = 0, DeletedAt = None,
                 Name = [], Description = [], Status = []\<rparr>"

text \<open>
  Go errors as values. \<open>NumError\<close> is the error of \<^verbatim>\<open>strconv\<close> (function, input, cause),
  \<open>ErrorsNew\<close> is \<^verbatim>\<open>errors.New\<close>, \<open>ErrRecordNotFound\<close> and \<open>ErrRejected\<close> come from the
  persistence layer, \<open>ErrUnmarshal\<close> from the body parser.
\<close>

datatype num_err = ErrSyntax | ErrRange

datatype error =
    NumError string string num_err
  | ErrorsNew string
  | ErrRecordNotFound
  | ErrRejected string
  | ErrUnmarshal

section \<open>strconv.Atoi\<close>

text \<open>
  The handlers read the path parameter with \<^verbatim>\<open>strconv.Atoi\<close> of the Go standard library,
  on a 64-bit \<^verbatim>\<open>int\<close>. It is \<^verbatim>\<open>ParseInt(s, 10, 0)\<close>: an optional sign, then decimal
  digits read by \<^verbatim>\<open>ParseUint\<close>, which stops at the first byte that is not a digit (syntax
  error, value 0) or at the first overflow of 64 bits (range error). A range error
  returns the nearest bound of the type, not 0.
\<close>

definition is_digit :: "char \<Rightarrow> bool" where
  "is_digit c = (48 \<le> (of_char c :: nat) \<and> (of_char c :: nat) \<le> 57)"

definition digit :: "char \<Rightarrow> nat" where
  "digit c = of_char c - 48"

definition maxUint64 :: nat where
  "maxUint64 = 2 ^ 64 - 1"

definition maxInt :: int where
  "maxInt = 2 ^ 63 - 1"

fun ParseUint_digits :: "nat \<Rightarrow> string \<Rightarrow> nat \<times> num_err option" where
  "ParseUint_digits n [] = (n, None)"
| "ParseUint_digits n (c # cs) =
     (if \<not> is_digit c then (0, Some ErrSyntax)
      else if n \<ge> maxUint64 div 10 + 1 then (maxUint64, Some ErrRange)
      else let n1 = n * 10 + digit c in
           if n1 > maxUint64 then (maxUint64, Some ErrRange)
           else ParseUint_digits n1 cs)"

definition ParseUint :: "string \<Rightarrow> nat \<times> num_err option" where
  "ParseUint s = (if s = [] then (0, Some ErrSyntax) else ParseUint_digits 0 s)"

definition ParseInt :: "string \<Rightarrow> int \<times> num_err option" where
  "ParseInt s0 =
     (if s0 = [] then (0, Some ErrSyntax)
      else
        let neg = (hd s0 = CHR ''-'');
            s = (if hd s0 = CHR ''+'' \<or> hd s0 = CHR ''-'' then tl s0 else s0);
            (un, err) = ParseUint s
        in if err \<noteq> None \<and> err \<noteq> Some ErrRange then (0, err)
           else if \<not> neg \<and> un \<ge> 2 ^ 63 then (maxInt, Some ErrRange)
           else if neg \<and> un > 2 ^ 63 then (- (2 ^ 63), Some ErrRange)
           else (if neg then - int un else int un, None))"

definition Atoi :: "string \<Rightarrow> int \<times> error option" where
  "Atoi s = (let (i, err) = ParseInt s in (i, map_option (NumError ''Atoi'' s) err))"

section \<open>The persistence layer\<close>

text \<open>
  The table of todos, in insertion order, and the last value issued by the id
  sequence. A row whose \<open>DeletedAt\<close> is set is soft-deleted: it stays in the table and
  no query sees it. An operation that writes takes the time \<open>now\<close> at which it
  happens, which the library reads from the clock.
\<close>

record DB =
  rows :: "Todo list"
  seq :: nat

definition empty_DB :: DB where
  "empty_DB = \<lparr>rows = [], seq = 0\<rparr>"

definition live :: "Todo \<Rightarrow> bool" where
  "live r = (DeletedAt r = None)"

definition matches :: "int \<Rightarrow> Todo \<Rightarrow> bool" where
  "matches id' r = (live r \<and> int (ID r) = id')"

text \<open>
  Modelled from the spec: the ORM call \<^verbatim>\<open>database.Find(&todos)\<close> is library code outside
  the sources. Spec 4.1, list: "returns every row, no pagination, no ordering guarantee
  specified (store default, effectively insertion order)"; rows removed by a delete are
  not returned.
\<close>

definition database_Find_all :: "DB \<Rightarrow> Todo list" where
  "database_Find_all db = filter live (rows db)"

text \<open>
  Modelled from the spec: the ORM call \<^verbatim>\<open>database.Find(&todo, id)\<close> is library code
  outside the sources. Spec 4.1, get: it "fails when no row matches". The destination
  struct is filled from the matching row; with no matching row it is left as it was,
  the zero value.
\<close>

definition database_Find :: "DB \<Rightarrow> int \<Rightarrow> Todo \<times> error option" where
  "database_Find db id' =
     (case filter (matches id') (rows db) of
        [] \<Rightarrow> (zero_Todo, Some ErrRecordNotFound)
      | r # _ \<Rightarrow> (r, None))"

text \<open>
  Modelled from the spec: the ORM call \<^verbatim>\<open>database.Create(&todo)\<close> is library code outside
  the sources. Spec 4.1, create: "inserts a new row, system assigns id and timestamps;
  fails if required fields are missing or the store rejects the insert"; spec 3:
  "name: text, required (empty rejected at the persistence layer, not validated
  beforehand)", "description: text, optional", and any string is accepted as status.
  The struct passed by pointer is updated with what the system assigned.
\<close>

definition database_Create :: "nat \<Rightarrow> Todo \<Rightarrow> DB \<Rightarrow> (Todo \<times> error option) \<times> DB" where
  "database_Create now todo db =
     (if Name todo = [] then ((todo, Some (ErrRejected ''name'')), db)
      else
        let t = todo\<lparr>ID := seq db + 1, CreatedAt := now, UpdatedAt := now, DeletedAt := None\<rparr>
        in ((t, None), db\<lparr>rows := rows db @ [t], seq := seq db + 1\<rparr>))"

text \<open>
  Modelled from the spec: the ORM call \<^verbatim>\<open>database.Save(user)\<close> is library code outside the
  sources. Spec 4.1, update: "replaces the identified row's mutable fields; fails if
  the underlying write fails; does not fail if the row does not exist". The struct is
  passed by value, so the caller's copy is not changed; the updated-at timestamp is
  managed by the persistence layer.
\<close>

definition database_Save :: "nat \<Rightarrow> Todo \<Rightarrow> DB \<Rightarrow> error option \<times> DB" where
  "database_Save now user db =
     (None,
      db\<lparr>rows :=
           map (\<lambda>r. if live r \<and> ID r = ID user
                     then r\<lparr>Name := Name user, Description := Description user,
                            Status := Status user, UpdatedAt := now\<rparr>
                     else r)
               (rows db)\<rparr>)"

text \<open>
  Modelled from the spec: the ORM call \<^verbatim>\<open>database.Delete(&Todo{}, id).RowsAffected\<close> is
  library code outside the sources. Spec 4.1, delete: "removes the row; returns 0 if
  nothing matched, \<ge>1 otherwise"; spec 3: removal is a soft delete, the marker being
  one of the timestamps of the entity.
\<close>

definition database_Delete :: "nat \<Rightarrow> int \<Rightarrow> DB \<Rightarrow> int \<times> DB" where
  "database_Delete now id' db =
     (int (length (filter (matches id') (rows db))),
      db\<lparr>rows := map (\<lambda>r. if matches id' r then r\<lparr>DeletedAt := Some now\<rparr> else r) (rows db)\<rparr>)"

section \<open>The repository (todo/repositories.go)\<close>

definition TodoRepository_FindAll :: "DB \<Rightarrow> Todo list" where
  "TodoRepository_FindAll db = database_Find_all db"

definition TodoRepository_Find :: "DB \<Rightarrow> int \<Rightarrow> Todo \<times> error option" where
  "TodoRepository_Find db id' =
     (let (todo, err) = database_Find db id';
          err = (if Name todo = [] then Some (ErrorsNew ''Todo not found'') else err)
      in (todo, err))"

definition TodoRepository_Create :: "nat \<Rightarrow> Todo \<Rightarrow> DB \<Rightarrow> (Todo \<times> error option) \<times> DB" where
  "TodoRepository_Create now todo db =
     (case database_Create now todo db of
        ((todo, Some err), db') \<Rightarrow> ((todo, Some err), db')
      | ((todo, None), db') \<Rightarrow> ((todo, None), db'))"

definition TodoRepository_Save :: "nat \<Rightarrow> Todo \<Rightarrow> DB \<Rightarrow> (Todo \<times> error option) \<times> DB" where
  "TodoRepository_Save now user db =
     (let (err, db') = database_Save now user db in ((user, err), db'))"

definition TodoRepository_Delete :: "nat \<Rightarrow> int \<Rightarrow> DB \<Rightarrow> int \<times> DB" where
  "TodoRepository_Delete now id' db = database_Delete now id' db"

section \<open>The handlers (todo/handlers.go)\<close>

text \<open>
  What a handler reads from the request context: the \<^verbatim>\<open>id\<close> path parameter and the
  body. A body either fails to deserialize or is a JSON object, of which the keys of
  the three fields with a \<^verbatim>\<open>json\<close> tag are kept, each present or omitted.
\<close>

record TodoObject =
  json_name :: "string option"
  json_description :: "string option"
  json_status :: "string option"

datatype Body = Malformed | Object TodoObject

record Ctx =
  Params_id :: string
  Body :: Body

text \<open>
  \<^verbatim>\<open>c.BodyParser(data)\<close> decodes the body into the struct behind the pointer: a key that
  is present overwrites its field, an omitted key leaves the field as it was.
\<close>

definition unmarshal_key :: "string option \<Rightarrow> string \<Rightarrow> string" where
  "unmarshal_key v field = (case v of None \<Rightarrow> field | Some s \<Rightarrow> s)"

definition BodyParser :: "Ctx \<Rightarrow> Todo \<Rightarrow> Todo \<times> error option" where
  "BodyParser c data =
     (case Body c of
        Malformed \<Rightarrow> (data, Some ErrUnmarshal)
      | Object obj \<Rightarrow>
          (data\<lparr>Name := unmarshal_key (json_name obj) (Name data),
                Description := unmarshal_key (json_description obj) (Description data),
                Status := unmarshal_key (json_status obj) (Status data)\<rparr>,
           None))"

text \<open>
  What a handler writes: a status code (200 unless \<^verbatim>\<open>c.Status\<close> sets another) and the
  value handed to \<^verbatim>\<open>c.JSON\<close>: a todo, a slice of todos, a \<^verbatim>\<open>fiber.Map\<close> literal with its
  entries in source order, or \<^verbatim>\<open>nil\<close>.
\<close>

datatype JSON =
    JNil
  | JInt int
  | JString string
  | JError error
  | JTodo Todo
  | JTodos "Todo list"
  | JMap "(string \<times> JSON) list"

record Response =
  status :: int
  body :: JSON

definition TodoHandler_GetAll :: "Ctx \<Rightarrow> DB \<Rightarrow> Response" where
  "TodoHandler_GetAll c db =
     (let todos = TodoRepository_FindAll db in \<lparr>status = 200, body = JTodos todos\<rparr>)"

definition TodoHandler_Get :: "Ctx \<Rightarrow> DB \<Rightarrow> Response" where
  "TodoHandler_Get c db =
     (let (id', err) = Atoi (Params_id c);
          (todo, err) = TodoRepository_Find db id'
      in case err of
           Some e \<Rightarrow> \<lparr>status = 404, body = JMap [(''status'', JInt 404), (''error'', JError e)]\<rparr>
         | None \<Rightarrow> \<lparr>status = 200, body = JTodo todo\<rparr>)"

definition TodoHandler_Create :: "nat \<Rightarrow> Ctx \<Rightarrow> DB \<Rightarrow> Response \<times> DB" where
  "TodoHandler_Create now c db =
     (case BodyParser c zero_Todo of
        (data, Some e) \<Rightarrow>
          (\<lparr>status = 500,
            body = JMap [(''status'', JString ''error''), (''message'', JString ''Review your input''),
                         (''error'', JError e)]\<rparr>, db)
      | (data, None) \<Rightarrow>
          (case TodoRepository_Create now data db of
             ((item, Some e), db') \<Rightarrow>
               (\<lparr>status = 400,
                 body = JMap [(''status'', JInt 400), (''message'', JString ''Failed creating item''),
                              (''error'', JError e)]\<rparr>, db')
           | ((item, None), db') \<Rightarrow> (\<lparr>status = 200, body = JTodo item\<rparr>, db')))"

definition TodoHandler_Update :: "nat \<Rightarrow> Ctx \<Rightarrow> DB \<Rightarrow> Response \<times> DB" where
  "TodoHandler_Update now c db =
     (case Atoi (Params_id c) of
        (id', Some e) \<Rightarrow>
          (\<lparr>status = 400,
            body = JMap [(''status'', JInt 400), (''message'', JString ''Item not found''),
                         (''error'', JError e)]\<rparr>, db)
      | (id', None) \<Rightarrow>
          (case TodoRepository_Find db id' of
             (todo, Some e) \<Rightarrow>
               (\<lparr>status = 404, body = JMap [(''message'', JString ''Item not found'')]\<rparr>, db)
           | (todo, None) \<Rightarrow>
               (case BodyParser c zero_Todo of
                  (todoData, Some e) \<Rightarrow>
                    (\<lparr>status = 400,
                      body = JMap [(''status'', JString ''error''),
                                   (''message'', JString ''Review your input''),
                                   (''data'', JError e)]\<rparr>, db)
                | (todoData, None) \<Rightarrow>
                    (let todo = todo\<lparr>Name := Name todoData,
                                     Description := Description todoData,
                                     Status := Status todoData\<rparr>
                     in case TodoRepository_Save now todo db of
                          ((item, Some e), db') \<Rightarrow>
                            (\<lparr>status = 400,
                              body = JMap [(''message'', JString ''Error updating todo''),
                                           (''error'', JError e)]\<rparr>, db')
                        | ((item, None), db') \<Rightarrow> (\<lparr>status = 200, body = JTodo item\<rparr>, db')))))"

definition TodoHandler_Delete :: "nat \<Rightarrow> Ctx \<Rightarrow> DB \<Rightarrow> Response \<times> DB" where
  "TodoHandler_Delete now c db =
     (case Atoi (Params_id c) of
        (id', Some e) \<Rightarrow>
          (\<lparr>status = 400,
            body = JMap [(''status'', JInt 400), (''message'', JString ''Failed deleting todo''),
                         (''err'', JError e)]\<rparr>, db)
      | (id', None) \<Rightarrow>
          (let (RowsAffected, db') = TodoRepository_Delete now id' db;
               statusCode = (if RowsAffected = 0 then 400 else 204)
           in (\<lparr>status = statusCode, body = JNil\<rparr>, db')))"

section \<open>Runs of the service and the invariant of the store\<close>

text \<open>
  A run of create operations on the repository, one after the other, each with the
  time at which it happens; the results are collected in order.
\<close>

fun create_all :: "(nat \<times> Todo) list \<Rightarrow> DB \<Rightarrow> (Todo \<times> error option) list \<times> DB" where
  "create_all [] db = ([], db)"
| "create_all ((now, todo) # xs) db =
     (let (r, db1) = TodoRepository_Create now todo db;
          (rs, db2) = create_all xs db1
      in (r # rs, db2))"

text \<open>
  The ids in the table were issued by the sequence: each is positive, none is beyond
  the last value issued, and no two rows share one.
\<close>

definition store_wf :: "DB \<Rightarrow> bool" where
  "store_wf db =
     (list_all (\<lambda>r. 0 < ID r \<and> ID r \<le> seq db) (rows db) \<and> distinct (map ID (rows db)))"

text \<open>
  The states the service reaches from the empty store: only the handlers for POST, PUT
  and DELETE change the store.
\<close>

inductive reachable :: "DB \<Rightarrow> bool" where
  reachable_empty: "reachable empty_DB"
| reachable_Create: "reachable db \<Longrightarrow> reachable (snd (TodoHandler_Create now c db))"
| reachable_Update: "reachable db \<Longrightarrow> reachable (snd (TodoHandler_Update now c db))"
| reachable_Delete: "reachable db \<Longrightarrow> reachable (snd (TodoHandler_Delete now c db))"

subsection \<open>Concrete todos, stores and requests\<close>

definition buy_milk :: Todo where
  "buy_milk = zero_Todo\<lparr>Name := ''Buy milk'', Status := ''pending''\<rparr>"

definition walk_dog :: Todo where
  "walk_dog = zero_Todo\<lparr>Name := ''Walk the dog'', Description := ''twice'', Status := ''done''\<rparr>"

definition two_created :: "(Todo \<times> error option) list" where
  "two_created = [(buy_milk\<lparr>ID := 1, CreatedAt := 5, UpdatedAt := 5\<rparr>, None),
                  (walk_dog\<lparr>ID := 2, CreatedAt := 6, UpdatedAt := 6\<rparr>, None)]"

definition two_DB :: DB where
  "two_DB = \<lparr>rows = map fst two_created, seq = 2\<rparr>"

definition nameless :: Todo where
  "nameless = zero_Todo\<lparr>ID := 1, CreatedAt := 5, UpdatedAt := 9, Status := ''pending''\<rparr>"

definition nameless_DB :: DB where
  "nameless_DB = \<lparr>rows = [nameless], seq = 1\<rparr>"

definition rename_dog :: Ctx where
  "rename_dog = \<lparr>Params_id = ''2'',
                 Body = Object \<lparr>json_name = Some ''Walk the cat'', json_description = None,
                                json_status = None\<rparr>\<rparr>"

section \<open>The repository\<close>

lemma TodoRepository_Create_eq:
  "TodoRepository_Create now todo db = database_Create now todo db"
  by (simp add: TodoRepository_Create_def split: prod.splits option.splits)

lemma filter_matches_unique:
  "distinct (map ID rs) \<Longrightarrow> r \<in> set rs \<Longrightarrow> live r \<Longrightarrow> filter (matches (int (ID r))) rs = [r]"
proof (induction rs)
  case Nil
  then show ?case by simp
next
  case (Cons a rs)
  show ?case
  proof (cases "a = r")
    case True
    with Cons.prems have "\<forall>x\<in>set rs. ID x \<noteq> ID r"
      by (auto simp: image_iff)
    then have "filter (matches (int (ID r))) rs = []"
      by (simp add: filter_empty_conv matches_def)
    moreover from True Cons.prems have "matches (int (ID r)) a"
      by (simp add: matches_def)
    ultimately show ?thesis using True by simp
  next
    case False
    with Cons.prems have "r \<in> set rs" "ID a \<noteq> ID r" by auto
    then have "\<not> matches (int (ID r)) a"
      by (simp add: matches_def)
    with Cons \<open>r \<in> set rs\<close> show ?thesis by simp
  qed
qed

lemma Find_present:
  assumes "distinct (map ID (rows db))" "r \<in> set (rows db)" "live r" "Name r \<noteq> []"
  shows "TodoRepository_Find db (int (ID r)) = (r, None)"
  using filter_matches_unique [OF assms(1,2,3)] assms(4)
  by (simp add: TodoRepository_Find_def database_Find_def)

lemma Create_ok:
  assumes "TodoRepository_Create now todo db = ((t, None), db')"
  shows "rows db' = rows db @ [t] \<and> seq db' = Suc (seq db) \<and> ID t = Suc (seq db) \<and>
         live t \<and> Name t \<noteq> []"
  using assms
  by (auto simp: TodoRepository_Create_eq database_Create_def live_def Let_def split: if_splits)

lemma Create_fail:
  assumes "TodoRepository_Create now todo db = ((t, Some e), db')"
  shows "db' = db"
  using assms
  by (auto simp: TodoRepository_Create_eq database_Create_def Let_def split: if_splits)

lemma Create_wf:
  assumes "store_wf db" "TodoRepository_Create now todo db = (r, db')"
  shows "store_wf db'"
proof (cases r)
  case (Pair t e)
  show ?thesis
  proof (cases e)
    case None
    with Pair assms(2) have "rows db' = rows db @ [t]" "seq db' = Suc (seq db)" "ID t = Suc (seq db)"
      using Create_ok by blast+
    with assms(1) show ?thesis
      by (auto simp: store_wf_def list_all_iff)
  next
    case (Some a)
    with Pair assms show ?thesis using Create_fail by blast
  qed
qed

lemma empty_wf: "store_wf empty_DB"
  by (simp add: store_wf_def empty_DB_def)

lemma create_all_general:
  "store_wf db \<Longrightarrow> create_all xs db = (rs, db') \<Longrightarrow>
     store_wf db' \<and> length rs = length xs \<and> seq db \<le> seq db' \<and>
     rows db' = rows db @ map fst (filter (\<lambda>r. snd r = None) rs) \<and>
     list_all (\<lambda>r. snd r = None \<longrightarrow> live (fst r) \<and> Name (fst r) \<noteq> []) rs"
proof (induction xs arbitrary: db rs db')
  case Nil
  then show ?case by simp
next
  case (Cons x xs)
  obtain now todo where x: "x = (now, todo)" by (cases x)
  obtain r db1 where c: "TodoRepository_Create now todo db = (r, db1)"
    by (cases "TodoRepository_Create now todo db")
  obtain rs1 db2 where a: "create_all xs db1 = (rs1, db2)"
    by (cases "create_all xs db1")
  from Cons.prems(2) x c a have rs: "rs = r # rs1" and db': "db' = db2" by auto
  have wf1: "store_wf db1" using Create_wf [OF Cons.prems(1) c] .
  note ih = Cons.IH [OF wf1 a]
  obtain t e where r: "r = (t, e)" by (cases r)
  show ?case
  proof (cases e)
    case None
    from Create_ok [OF c [unfolded r None]] ih show ?thesis
      by (simp add: rs db' r None)
  next
    case (Some err)
    from Create_fail [OF c [unfolded r Some]] ih show ?thesis
      by (simp add: rs db' r Some)
  qed
qed

text \<open>
  C1. After a run of N create operations on the empty store that all succeed, the
  list operation returns exactly the N created todos, in order, and the get operation
  \<open>Find\<close> returns each of them, without error, for the id it was assigned.
\<close>

theorem create_then_list_and_find:
  assumes "create_all xs empty_DB = (rs, db)"
    and "list_all (\<lambda>r. snd r = None) rs"
  shows "TodoRepository_FindAll db = map fst rs \<and>
         length (TodoRepository_FindAll db) = length xs \<and>
         list_all (\<lambda>r. TodoRepository_Find db (int (ID (fst r))) = (fst r, None)) rs"
proof -
  from create_all_general [OF empty_wf assms(1)]
  have wf: "store_wf db" and len: "length rs = length xs"
    and rws: "rows db = map fst (filter (\<lambda>r. snd r = None) rs)"
    and ok: "list_all (\<lambda>r. snd r = None \<longrightarrow> live (fst r) \<and> Name (fst r) \<noteq> []) rs"
    by (simp_all add: empty_DB_def)
  from assms(2) have all: "filter (\<lambda>r. snd r = None) rs = rs"
    by (simp add: list_all_iff)
  with rws have rows: "rows db = map fst rs" by simp
  from ok assms(2) have good: "\<forall>r\<in>set rs. live (fst r) \<and> Name (fst r) \<noteq> []"
    by (simp add: list_all_iff)
  then have "filter live (rows db) = rows db"
    by (simp add: rows)
  then have l: "TodoRepository_FindAll db = map fst rs"
    by (simp add: TodoRepository_FindAll_def database_Find_all_def rows)
  have "\<forall>r\<in>set rs. TodoRepository_Find db (int (ID (fst r))) = (fst r, None)"
  proof
    fix r assume r: "r \<in> set rs"
    then have "fst r \<in> set (rows db)" by (simp add: rows)
    moreover from wf have "distinct (map ID (rows db))" by (simp add: store_wf_def)
    ultimately show "TodoRepository_Find db (int (ID (fst r))) = (fst r, None)"
      using good r by (intro Find_present) auto
  qed
  with l len show ?thesis by (simp add: list_all_iff)
qed

theorem create_then_list_and_find_witness:
  "create_all [(5, buy_milk), (6, walk_dog)] empty_DB = (two_created, two_DB) \<and>
   list_all (\<lambda>r. snd r = None) two_created \<and>
   TodoRepository_FindAll two_DB = map fst two_created \<and>
   length (TodoRepository_FindAll two_DB) = 2 \<and>
   list_all (\<lambda>r. TodoRepository_Find two_DB (int (ID (fst r))) = (fst r, None)) two_created"
proof -
  have h1: "create_all [(5, buy_milk), (6, walk_dog)] empty_DB = (two_created, two_DB)"
    by (simp add: TodoRepository_Create_def database_Create_def empty_DB_def buy_milk_def
        walk_dog_def zero_Todo_def two_created_def two_DB_def Let_def)
  have h2: "list_all (\<lambda>r. snd r = None) two_created"
    by (simp add: two_created_def)
  have h3: "length [(5::nat, buy_milk), (6, walk_dog)] = 2"
    by simp
  from create_then_list_and_find [OF h1 h2] h1 h2 show ?thesis
    unfolding h3 by blast
qed

lemma database_Find_none:
  "\<not> (\<exists>r\<in>set (rows db). matches i r) \<Longrightarrow>
     database_Find db i = (zero_Todo, Some ErrRecordNotFound)"
  by (simp add: database_Find_def filter_empty_conv [THEN iffD2])

lemma database_Find_row:
  assumes "database_Find db i = (r, None)"
  shows "r \<in> set (rows db) \<and> matches i r"
proof -
  from assms obtain rs where "filter (matches i) (rows db) = r # rs"
    by (auto simp: database_Find_def split: list.splits)
  then have "r \<in> set (filter (matches i) (rows db))" by simp
  then show ?thesis by simp
qed

lemma Find_error_kind:
  "snd (TodoRepository_Find db i) = Some e \<Longrightarrow> e = ErrorsNew ''Todo not found''"
  by (auto simp: TodoRepository_Find_def database_Find_def zero_Todo_def
      split: list.splits if_splits)

lemma Find_none:
  "\<not> (\<exists>r\<in>set (rows db). matches i r) \<Longrightarrow>
     TodoRepository_Find db i = (zero_Todo, Some (ErrorsNew ''Todo not found''))"
  by (simp add: TodoRepository_Find_def database_Find_none) (simp add: zero_Todo_def)

text \<open>
  C2. \<open>Find\<close> returns the not-found error when no row matches the id. It returns the
  same error when the persistence layer did return a row for the id and the name of
  that row is empty: the error is decided by the name being the zero value. A row
  with a name is returned without error.
\<close>

theorem Find_not_found:
  "(\<not> (\<exists>r\<in>set (rows db). matches id' r) \<longrightarrow>
      TodoRepository_Find db id' = (zero_Todo, Some (ErrorsNew ''Todo not found''))) \<and>
   (database_Find db id' = (r, None) \<and> Name r = [] \<longrightarrow>
      TodoRepository_Find db id' = (r, Some (ErrorsNew ''Todo not found''))) \<and>
   (database_Find db id' = (r, None) \<and> Name r \<noteq> [] \<longrightarrow>
      TodoRepository_Find db id' = (r, None))"
  using Find_none [of db id'] by (simp add: TodoRepository_Find_def)

theorem Find_not_found_witness:
  "\<not> (\<exists>r\<in>set (rows empty_DB). matches 1 r) \<and>
   TodoRepository_Find empty_DB 1 = (zero_Todo, Some (ErrorsNew ''Todo not found'')) \<and>
   database_Find nameless_DB 1 = (nameless, None) \<and> Name nameless = [] \<and>
   TodoRepository_Find nameless_DB 1 = (nameless, Some (ErrorsNew ''Todo not found'')) \<and>
   database_Find two_DB 2 = (fst (two_created ! 1), None) \<and>
   Name (fst (two_created ! 1)) \<noteq> [] \<and>
   TodoRepository_Find two_DB 2 = (fst (two_created ! 1), None)"
proof -
  have a: "\<not> (\<exists>r\<in>set (rows empty_DB). matches 1 r)"
    by (simp add: empty_DB_def)
  have b: "database_Find nameless_DB 1 = (nameless, None) \<and> Name nameless = []"
    by (simp add: database_Find_def nameless_DB_def nameless_def matches_def live_def zero_Todo_def)
  have c: "database_Find two_DB 2 = (fst (two_created ! 1), None) \<and>
           Name (fst (two_created ! 1)) \<noteq> []"
    by (simp add: database_Find_def two_DB_def two_created_def matches_def live_def
        buy_milk_def walk_dog_def zero_Todo_def)
  from a b c Find_not_found [of empty_DB 1] Find_not_found [of nameless_DB 1 nameless]
    Find_not_found [of two_DB 2 "fst (two_created ! 1)"]
  show ?thesis by blast
qed

section \<open>GET /todo/:id\<close>

lemma ParseUint_digits_err:
  "ParseUint_digits n s = (u, Some e) \<Longrightarrow>
     (e = ErrSyntax \<and> u = 0) \<or> (e = ErrRange \<and> u = maxUint64)"
  by (induction n s rule: ParseUint_digits.induct) (auto simp: Let_def split: if_splits)

lemma ParseInt_err:
  "ParseInt s = (i, Some e) \<Longrightarrow> i = 0 \<or> i = maxInt \<or> i = - (2 ^ 63)"
  by (auto simp: ParseInt_def Let_def split: if_splits prod.splits)

lemma Atoi_err:
  assumes "snd (Atoi s) \<noteq> None"
  shows "fst (Atoi s) = 0 \<or> fst (Atoi s) = maxInt \<or> fst (Atoi s) = - (2 ^ 63)"
proof -
  obtain i e where p: "ParseInt s = (i, e)" by (cases "ParseInt s")
  with assms obtain x where "e = Some x" by (auto simp: Atoi_def)
  with p ParseInt_err [of s i x] show ?thesis by (simp add: Atoi_def)
qed

lemma wf_no_match:
  assumes "store_wf db" "int (seq db) < maxInt" "i = 0 \<or> i = maxInt \<or> i = - (2 ^ 63)"
  shows "\<not> (\<exists>r\<in>set (rows db). matches i r)"
proof
  assume "\<exists>r\<in>set (rows db). matches i r"
  then obtain r where r: "r \<in> set (rows db)" "int (ID r) = i"
    by (auto simp: matches_def)
  with assms(1) have "0 < ID r" "ID r \<le> seq db"
    by (auto simp: store_wf_def list_all_iff)
  with assms(2,3) r(2) show False by auto
qed

text \<open>
  C4. On a store whose ids were issued by the sequence, and whose sequence has not
  reached the largest \<^verbatim>\<open>int\<close>: when the id does not parse, and when \<open>Find\<close> returns an
  error, the handler answers 404 with an error body; when no row has the requested
  id, the answer is 404 and the error is the not-found error, never another; when
  \<open>Find\<close> succeeds, the answer is 200 with the todo. The handler drops the error of
  \<^verbatim>\<open>Atoi\<close> and looks up the value it returned, 0 or a bound of the type, which no row
  of such a store carries.
\<close>

theorem Get_responses:
  assumes "store_wf db" and "int (seq db) < maxInt"
  shows "(snd (Atoi (Params_id c)) \<noteq> None \<longrightarrow>
            TodoHandler_Get c db =
              \<lparr>status = 404,
               body = JMap [(''status'', JInt 404),
                            (''error'', JError (ErrorsNew ''Todo not found''))]\<rparr>) \<and>
         (snd (TodoRepository_Find db (fst (Atoi (Params_id c)))) \<noteq> None \<longrightarrow>
            TodoHandler_Get c db =
              \<lparr>status = 404,
               body = JMap [(''status'', JInt 404),
                            (''error'', JError (ErrorsNew ''Todo not found''))]\<rparr>) \<and>
         (\<not> (\<exists>r\<in>set (rows db). matches (fst (Atoi (Params_id c))) r) \<longrightarrow>
            TodoHandler_Get c db =
              \<lparr>status = 404,
               body = JMap [(''status'', JInt 404),
                            (''error'', JError (ErrorsNew ''Todo not found''))]\<rparr>) \<and>
         (TodoRepository_Find db (fst (Atoi (Params_id c))) = (todo, None) \<longrightarrow>
            TodoHandler_Get c db = \<lparr>status = 200, body = JTodo todo\<rparr>)"
proof -
  let ?i = "fst (Atoi (Params_id c))"
  let ?nf = "\<lparr>status = 404,
               body = JMap [(''status'', JInt 404),
                            (''error'', JError (ErrorsNew ''Todo not found''))]\<rparr>"
  have get: "TodoHandler_Get c db =
      (case snd (TodoRepository_Find db ?i) of
         Some e \<Rightarrow> \<lparr>status = 404, body = JMap [(''status'', JInt 404), (''error'', JError e)]\<rparr>
       | None \<Rightarrow> \<lparr>status = 200, body = JTodo (fst (TodoRepository_Find db ?i))\<rparr>)"
    by (simp add: TodoHandler_Get_def case_prod_beta)
  have fail: "TodoHandler_Get c db = ?nf" if "snd (TodoRepository_Find db ?i) \<noteq> None"
  proof -
    from that obtain e where e: "snd (TodoRepository_Find db ?i) = Some e" by auto
    with Find_error_kind [OF e] show ?thesis by (simp add: get)
  qed
  have nomatch: "TodoHandler_Get c db = ?nf" if "\<not> (\<exists>r\<in>set (rows db). matches ?i r)"
    using Find_none [OF that] by (simp add: get)
  have parse: "TodoHandler_Get c db = ?nf" if "snd (Atoi (Params_id c)) \<noteq> None"
    using wf_no_match [OF assms Atoi_err [OF that]] nomatch by blast
  have ok: "TodoHandler_Get c db = \<lparr>status = 200, body = JTodo todo\<rparr>"
    if "TodoRepository_Find db ?i = (todo, None)"
    using that by (simp add: get)
  from fail nomatch parse ok show ?thesis by blast
qed

subsection \<open>Evaluation on the concrete stores\<close>

lemma Atoi_2: "Atoi ''2'' = (2, None)"
  by (simp add: Atoi_def ParseInt_def ParseUint_def is_digit_def digit_def maxUint64_def)

lemma Atoi_7: "Atoi ''7'' = (7, None)"
  by (simp add: Atoi_def ParseInt_def ParseUint_def is_digit_def digit_def maxUint64_def)

lemma Atoi_abc: "Atoi ''abc'' = (0, Some (NumError ''Atoi'' ''abc'' ErrSyntax))"
  by (simp add: Atoi_def ParseInt_def ParseUint_def is_digit_def digit_def maxUint64_def)

lemma Atoi_big:
  "Atoi ''9223372036854775808'' =
     (maxInt, Some (NumError ''Atoi'' ''9223372036854775808'' ErrRange))"
  by (simp add: Atoi_def ParseInt_def ParseUint_def is_digit_def digit_def maxUint64_def)

lemma two_DB_rows:
  "rows two_DB = [buy_milk\<lparr>ID := 1, CreatedAt := 5, UpdatedAt := 5\<rparr>,
                  walk_dog\<lparr>ID := 2, CreatedAt := 6, UpdatedAt := 6\<rparr>]"
  by (simp add: two_DB_def two_created_def)

lemma two_DB_wf: "store_wf two_DB \<and> int (seq two_DB) < maxInt"
  by (simp add: store_wf_def two_DB_def two_created_def maxInt_def
      buy_milk_def walk_dog_def zero_Todo_def)

lemma two_DB_Find_2:
  "TodoRepository_Find two_DB 2 = (walk_dog\<lparr>ID := 2, CreatedAt := 6, UpdatedAt := 6\<rparr>, None)"
  by (simp add: TodoRepository_Find_def database_Find_def two_DB_rows matches_def live_def
      buy_milk_def walk_dog_def zero_Todo_def)

lemma two_DB_no_7: "\<not> (\<exists>r\<in>set (rows two_DB). matches 7 r)"
  by (simp add: two_DB_rows matches_def buy_milk_def walk_dog_def zero_Todo_def)

theorem Get_responses_witness:
  "store_wf two_DB \<and> int (seq two_DB) < maxInt \<and>
   snd (Atoi ''abc'') \<noteq> None \<and>
   TodoHandler_Get \<lparr>Params_id = ''abc'', Body = Malformed\<rparr> two_DB =
     \<lparr>status = 404,
      body = JMap [(''status'', JInt 404), (''error'', JError (ErrorsNew ''Todo not found''))]\<rparr> \<and>
   snd (Atoi ''9223372036854775808'') \<noteq> None \<and>
   TodoHandler_Get \<lparr>Params_id = ''9223372036854775808'', Body = Malformed\<rparr> two_DB =
     \<lparr>status = 404,
      body = JMap [(''status'', JInt 404), (''error'', JError (ErrorsNew ''Todo not found''))]\<rparr> \<and>
   \<not> (\<exists>r\<in>set (rows two_DB). matches (fst (Atoi ''7'')) r) \<and>
   TodoHandler_Get \<lparr>Params_id = ''7'', Body = Malformed\<rparr> two_DB =
     \<lparr>status = 404,
      body = JMap [(''status'', JInt 404), (''error'', JError (ErrorsNew ''Todo not found''))]\<rparr> \<and>
   TodoRepository_Find two_DB (fst (Atoi ''2'')) =
     (walk_dog\<lparr>ID := 2, CreatedAt := 6, UpdatedAt := 6\<rparr>, None) \<and>
   TodoHandler_Get \<lparr>Params_id = ''2'', Body = Malformed\<rparr> two_DB =
     \<lparr>status = 200, body = JTodo (walk_dog\<lparr>ID := 2, CreatedAt := 6, UpdatedAt := 6\<rparr>)\<rparr>"
proof -
  note wf = two_DB_wf [THEN conjunct1] two_DB_wf [THEN conjunct2]
  have a: "snd (Atoi ''abc'') \<noteq> None" by (simp add: Atoi_abc)
  have b: "snd (Atoi ''9223372036854775808'') \<noteq> None" by (simp add: Atoi_big)
  have c: "\<not> (\<exists>r\<in>set (rows two_DB). matches (fst (Atoi ''7'')) r)"
    using two_DB_no_7 by (simp add: Atoi_7)
  have d: "TodoRepository_Find two_DB (fst (Atoi ''2'')) =
     (walk_dog\<lparr>ID := 2, CreatedAt := 6, UpdatedAt := 6\<rparr>, None)"
    by (simp add: Atoi_2 two_DB_Find_2)
  from Get_responses [OF wf, of "\<lparr>Params_id = ''abc'', Body = Malformed\<rparr>"] a
  have 1: "TodoHandler_Get \<lparr>Params_id = ''abc'', Body = Malformed\<rparr> two_DB =
     \<lparr>status = 404,
      body = JMap [(''status'', JInt 404), (''error'', JError (ErrorsNew ''Todo not found''))]\<rparr>"
    by simp
  from Get_responses [OF wf, of "\<lparr>Params_id = ''9223372036854775808'', Body = Malformed\<rparr>"] b
  have 2: "TodoHandler_Get \<lparr>Params_id = ''9223372036854775808'', Body = Malformed\<rparr> two_DB =
     \<lparr>status = 404,
      body = JMap [(''status'', JInt 404), (''error'', JError (ErrorsNew ''Todo not found''))]\<rparr>"
    by simp
  from Get_responses [OF wf, of "\<lparr>Params_id = ''7'', Body = Malformed\<rparr>"] c
  have 3: "TodoHandler_Get \<lparr>Params_id = ''7'', Body = Malformed\<rparr> two_DB =
     \<lparr>status = 404,
      body = JMap [(''status'', JInt 404), (''error'', JError (ErrorsNew ''Todo not found''))]\<rparr>"
    by simp
  from Get_responses [OF wf, of "\<lparr>Params_id = ''2'', Body = Malformed\<rparr>"
      "walk_dog\<lparr>ID := 2, CreatedAt := 6, UpdatedAt := 6\<rparr>"] d
  have 4: "TodoHandler_Get \<lparr>Params_id = ''2'', Body = Malformed\<rparr> two_DB =
     \<lparr>status = 200, body = JTodo (walk_dog\<lparr>ID := 2, CreatedAt := 6, UpdatedAt := 6\<rparr>)\<rparr>"
    by simp
  from wf a b c d 1 2 3 4 show ?thesis by blast
qed

section \<open>DELETE /todo/:id\<close>

lemma Delete_count_zero:
  "fst (database_Delete now i db) = 0 \<longleftrightarrow> \<not> (\<exists>r\<in>set (rows db). matches i r)"
  by (auto simp: database_Delete_def filter_empty_conv)

lemma no_match_map: "(\<And>x. \<not> P (f x)) \<Longrightarrow> \<not> (\<exists>y\<in>set (map f xs). P y)"
  by auto

lemma Delete_no_match_after:
  "\<not> (\<exists>r\<in>set (rows (snd (database_Delete now i db))). matches i r)"
proof -
  have rows: "rows (snd (database_Delete now i db)) =
      map (\<lambda>r. if matches i r then r\<lparr>DeletedAt := Some now\<rparr> else r) (rows db)"
    by (simp add: database_Delete_def)
  show ?thesis
    unfolding rows by (rule no_match_map) (simp add: matches_def live_def)
qed

lemma TodoHandler_Delete_parsed:
  "Atoi (Params_id c) = (i, None) \<Longrightarrow>
     TodoHandler_Delete now c db =
       (\<lparr>status = (if fst (TodoRepository_Delete now i db) = 0 then 400 else 204), body = JNil\<rparr>,
        snd (TodoRepository_Delete now i db))"
  by (simp add: TodoHandler_Delete_def case_prod_beta)

text \<open>
  C5. When the id parses, the status of DELETE is 204 if the repository delete
  affected one row or more and 400 if it affected none. So deleting an id that a
  row of the table carries answers 204, and deleting the same id again, at any later
  time, answers 400.
\<close>

theorem Delete_status:
  assumes "Atoi (Params_id c) = (id', None)"
  shows "status (fst (TodoHandler_Delete now c db)) =
           (if 1 \<le> fst (TodoRepository_Delete now id' db) then 204 else 400) \<and>
         (fst (TodoRepository_Delete now id' db) = 0 \<longrightarrow>
            status (fst (TodoHandler_Delete now c db)) = 400) \<and>
         ((\<exists>r\<in>set (rows db). matches id' r) \<longrightarrow>
            status (fst (TodoHandler_Delete now c db)) = 204 \<and>
            status (fst (TodoHandler_Delete now' c (snd (TodoHandler_Delete now c db)))) = 400)"
proof -
  let ?n = "fst (TodoRepository_Delete now id' db)"
  let ?db1 = "snd (TodoRepository_Delete now id' db)"
  have nonneg: "0 \<le> ?n"
    by (simp add: TodoRepository_Delete_def database_Delete_def)
  have first: "status (fst (TodoHandler_Delete now c db)) = (if ?n = 0 then 400 else 204)"
    and db1: "snd (TodoHandler_Delete now c db) = ?db1"
    by (simp_all add: TodoHandler_Delete_parsed [OF assms])
  have "fst (TodoRepository_Delete now' id' ?db1) = 0"
    using Delete_no_match_after [of now id' db] Delete_count_zero [of now' id' "snd (database_Delete now id' db)"]
    by (simp add: TodoRepository_Delete_def)
  then have second: "status (fst (TodoHandler_Delete now' c ?db1)) = 400"
    by (simp add: TodoHandler_Delete_parsed [OF assms])
  have exists: "(\<exists>r\<in>set (rows db). matches id' r) \<Longrightarrow> ?n \<noteq> 0"
    using Delete_count_zero [of now id' db] by (simp add: TodoRepository_Delete_def)
  show ?thesis
  proof (cases "?n = 0")
    case True
    with first exists show ?thesis by auto
  next
    case False
    with nonneg have "1 \<le> ?n" by simp
    with first False second show ?thesis by (simp add: db1)
  qed
qed

theorem Delete_status_witness:
  "Atoi ''2'' = (2, None) \<and> (\<exists>r\<in>set (rows two_DB). matches 2 r) \<and>
   status (fst (TodoHandler_Delete 7 \<lparr>Params_id = ''2'', Body = Malformed\<rparr> two_DB)) = 204 \<and>
   status (fst (TodoHandler_Delete 8 \<lparr>Params_id = ''2'', Body = Malformed\<rparr>
                  (snd (TodoHandler_Delete 7 \<lparr>Params_id = ''2'', Body = Malformed\<rparr> two_DB)))) = 400 \<and>
   Atoi ''7'' = (7, None) \<and> fst (TodoRepository_Delete 7 7 two_DB) = 0 \<and>
   status (fst (TodoHandler_Delete 7 \<lparr>Params_id = ''7'', Body = Malformed\<rparr> two_DB)) = 400"
proof -
  have h2: "Atoi (Params_id \<lparr>Params_id = ''2'', Body = Malformed\<rparr>) = (2, None)"
    by (simp add: Atoi_2)
  have h7: "Atoi (Params_id \<lparr>Params_id = ''7'', Body = Malformed\<rparr>) = (7, None)"
    by (simp add: Atoi_7)
  have m: "\<exists>r\<in>set (rows two_DB). matches 2 r"
    by (simp add: two_DB_rows matches_def live_def buy_milk_def walk_dog_def zero_Todo_def)
  have z: "fst (TodoRepository_Delete 7 7 two_DB) = 0"
    by (simp add: TodoRepository_Delete_def database_Delete_def two_DB_rows matches_def
        buy_milk_def walk_dog_def zero_Todo_def)
  from Delete_status [OF h2, where now = 7 and db = two_DB and now' = 8] m
    Delete_status [OF h7, where now = 7 and db = two_DB and now' = 8] z
  show ?thesis by (simp add: Atoi_2 Atoi_7)
qed



section \<open>GET /todo\<close>

text \<open>
  C7. Whatever the store holds, GET on the collection answers 200 with the slice of
  all todos of the store, those not removed by a delete, in the order of the table;
  when the store holds none the body is the empty slice.
\<close>

theorem GetAll_response:
  "TodoHandler_GetAll c db = \<lparr>status = 200, body = JTodos (TodoRepository_FindAll db)\<rparr> \<and>
   TodoRepository_FindAll db = filter live (rows db) \<and>
   (\<not> (\<exists>r\<in>set (rows db). live r) \<longrightarrow>
      TodoHandler_GetAll c db = \<lparr>status = 200, body = JTodos []\<rparr>)"
  by (simp add: TodoHandler_GetAll_def TodoRepository_FindAll_def database_Find_all_def
      filter_empty_conv)

theorem GetAll_response_witness:
  "\<not> (\<exists>r\<in>set (rows empty_DB). live r) \<and>
   TodoHandler_GetAll \<lparr>Params_id = [], Body = Malformed\<rparr> empty_DB = \<lparr>status = 200, body = JTodos []\<rparr> \<and>
   TodoHandler_GetAll \<lparr>Params_id = [], Body = Malformed\<rparr> two_DB =
     \<lparr>status = 200, body = JTodos (map fst two_created)\<rparr>"
proof -
  have e: "\<not> (\<exists>r\<in>set (rows empty_DB). live r)"
    by (simp add: empty_DB_def)
  have l: "filter live (rows two_DB) = map fst two_created"
    by (simp add: two_DB_def two_created_def live_def buy_milk_def walk_dog_def zero_Todo_def)
  from GetAll_response [of "\<lparr>Params_id = [], Body = Malformed\<rparr>" empty_DB] e
    GetAll_response [of "\<lparr>Params_id = [], Body = Malformed\<rparr>" two_DB] l
  show ?thesis by simp
qed

section \<open>POST /todo\<close>

lemma BodyParser_Object:
  "Body c = Object obj \<Longrightarrow>
     BodyParser c zero_Todo =
       (zero_Todo\<lparr>Name := unmarshal_key (json_name obj) [], Description := unmarshal_key (json_description obj) [],
                  Status := unmarshal_key (json_status obj) []\<rparr>, None)"
  by (simp add: BodyParser_def zero_Todo_def)

lemma BodyParser_Malformed:
  "Body c = Malformed \<Longrightarrow> BodyParser c data = (data, Some ErrUnmarshal)"
  by (simp add: BodyParser_def)

text \<open>
  C6. POST answers 500 when the body does not deserialize, and the store is left as
  it was; 400 when the body deserializes and the store rejects the insert; and 200
  when the insert succeeds, with the created todo: its id is not the zero value, it
  is the next value of the sequence of the store, its name, description and status
  are those of the body (empty for a key the body omits), and it is a row of the
  store.
\<close>

theorem Create_responses:
  "(Body c = Malformed \<longrightarrow>
      status (fst (TodoHandler_Create now c db)) = 500 \<and> snd (TodoHandler_Create now c db) = db) \<and>
   (Body c = Object obj \<and>
    snd (fst (TodoRepository_Create now (fst (BodyParser c zero_Todo)) db)) \<noteq> None \<longrightarrow>
      status (fst (TodoHandler_Create now c db)) = 400) \<and>
   (Body c = Object obj \<and>
    snd (fst (TodoRepository_Create now (fst (BodyParser c zero_Todo)) db)) = None \<longrightarrow>
      (\<exists>item. fst (TodoHandler_Create now c db) = \<lparr>status = 200, body = JTodo item\<rparr> \<and>
              ID item \<noteq> 0 \<and> ID item = Suc (seq db) \<and>
              Name item = unmarshal_key (json_name obj) [] \<and>
              Description item = unmarshal_key (json_description obj) [] \<and>
              Status item = unmarshal_key (json_status obj) [] \<and>
              item \<in> set (rows (snd (TodoHandler_Create now c db)))))"
proof -
  define data where "data = zero_Todo\<lparr>Name := unmarshal_key (json_name obj) [],
                                   Description := unmarshal_key (json_description obj) [],
                                   Status := unmarshal_key (json_status obj) []\<rparr>"
  have malformed: "status (fst (TodoHandler_Create now c db)) = 500 \<and> snd (TodoHandler_Create now c db) = db"
    if "Body c = Malformed"
    using that by (simp add: TodoHandler_Create_def BodyParser_Malformed)
  have bp: "BodyParser c zero_Todo = (data, None)" if "Body c = Object obj"
    using that by (simp add: BodyParser_Object data_def)
  have rejected: "status (fst (TodoHandler_Create now c db)) = 400"
    if b: "Body c = Object obj"
      and r: "snd (fst (TodoRepository_Create now (fst (BodyParser c zero_Todo)) db)) \<noteq> None"
  proof -
    obtain item e db' where "TodoRepository_Create now data db = ((item, Some e), db')"
      using r bp [OF b] by (cases "TodoRepository_Create now data db") auto
    then show ?thesis
      by (simp add: TodoHandler_Create_def bp [OF b])
  qed
  have created: "\<exists>item. fst (TodoHandler_Create now c db) = \<lparr>status = 200, body = JTodo item\<rparr> \<and>
              ID item \<noteq> 0 \<and> ID item = Suc (seq db) \<and>
              Name item = unmarshal_key (json_name obj) [] \<and>
              Description item = unmarshal_key (json_description obj) [] \<and>
              Status item = unmarshal_key (json_status obj) [] \<and>
              item \<in> set (rows (snd (TodoHandler_Create now c db)))"
    if b: "Body c = Object obj"
      and r: "snd (fst (TodoRepository_Create now (fst (BodyParser c zero_Todo)) db)) = None"
  proof -
    obtain item db' where cr: "TodoRepository_Create now data db = ((item, None), db')"
      using r bp [OF b] by (cases "TodoRepository_Create now data db") auto
    then have h: "TodoHandler_Create now c db = (\<lparr>status = 200, body = JTodo item\<rparr>, db')"
      by (simp add: TodoHandler_Create_def bp [OF b])
    from cr have "item = data\<lparr>ID := seq db + 1, CreatedAt := now, UpdatedAt := now, DeletedAt := None\<rparr>"
      by (auto simp: TodoRepository_Create_eq database_Create_def Let_def split: if_splits)
    then have "ID item \<noteq> 0" "ID item = Suc (seq db)" "Name item = unmarshal_key (json_name obj) []"
      "Description item = unmarshal_key (json_description obj) []"
      "Status item = unmarshal_key (json_status obj) []"
      by (simp_all add: data_def)
    moreover from Create_ok [OF cr] have "item \<in> set (rows db')" by simp
    ultimately show ?thesis using h by simp
  qed
  from malformed rejected created show ?thesis by blast
qed

theorem Create_responses_witness:
  "Body \<lparr>Params_id = [], Body = Malformed\<rparr> = Malformed \<and>
   status (fst (TodoHandler_Create 5 \<lparr>Params_id = [], Body = Malformed\<rparr> empty_DB)) = 500 \<and>
   snd (fst (TodoRepository_Create 5
     (fst (BodyParser \<lparr>Params_id = [], Body = Object \<lparr>json_name = None, json_description = None,
        json_status = Some ''pending''\<rparr>\<rparr> zero_Todo)) empty_DB)) \<noteq> None \<and>
   status (fst (TodoHandler_Create 5 \<lparr>Params_id = [], Body = Object \<lparr>json_name = None,
        json_description = None, json_status = Some ''pending''\<rparr>\<rparr> empty_DB)) = 400 \<and>
   snd (fst (TodoRepository_Create 5
     (fst (BodyParser \<lparr>Params_id = [], Body = Object \<lparr>json_name = Some ''Buy milk'',
        json_description = None, json_status = Some ''pending''\<rparr>\<rparr> zero_Todo)) empty_DB)) = None \<and>
   fst (TodoHandler_Create 5 \<lparr>Params_id = [], Body = Object \<lparr>json_name = Some ''Buy milk'',
        json_description = None, json_status = Some ''pending''\<rparr>\<rparr> empty_DB) =
     \<lparr>status = 200, body = JTodo (buy_milk\<lparr>ID := 1, CreatedAt := 5, UpdatedAt := 5\<rparr>)\<rparr>"
proof -
  let ?bad = "\<lparr>Params_id = [], Body = Malformed\<rparr>"
  let ?anon = "\<lparr>json_name = None, json_description = None, json_status = Some ''pending''\<rparr>"
  let ?milk = "\<lparr>json_name = Some ''Buy milk'', json_description = None, json_status = Some ''pending''\<rparr>"
  have 1: "Body ?bad = Malformed" by simp
  have 2: "Body \<lparr>Params_id = [], Body = Object ?anon\<rparr> = Object ?anon \<and>
     snd (fst (TodoRepository_Create 5
       (fst (BodyParser \<lparr>Params_id = [], Body = Object ?anon\<rparr> zero_Todo)) empty_DB)) \<noteq> None"
    by (simp add: BodyParser_def TodoRepository_Create_eq database_Create_def unmarshal_key_def
        zero_Todo_def)
  have 3: "Body \<lparr>Params_id = [], Body = Object ?milk\<rparr> = Object ?milk \<and>
     snd (fst (TodoRepository_Create 5
       (fst (BodyParser \<lparr>Params_id = [], Body = Object ?milk\<rparr> zero_Todo)) empty_DB)) = None"
    by (simp add: BodyParser_def TodoRepository_Create_eq database_Create_def unmarshal_key_def
        zero_Todo_def Let_def)
  have 4: "fst (TodoHandler_Create 5 \<lparr>Params_id = [], Body = Object ?milk\<rparr> empty_DB) =
     \<lparr>status = 200, body = JTodo (buy_milk\<lparr>ID := 1, CreatedAt := 5, UpdatedAt := 5\<rparr>)\<rparr>"
    by (simp add: TodoHandler_Create_def BodyParser_def TodoRepository_Create_eq
        database_Create_def unmarshal_key_def zero_Todo_def Let_def buy_milk_def empty_DB_def)
  from Create_responses [of ?bad 5 empty_DB] 1
    Create_responses [of "\<lparr>Params_id = [], Body = Object ?anon\<rparr>" 5 empty_DB ?anon] 2
    Create_responses [of "\<lparr>Params_id = [], Body = Object ?milk\<rparr>" 5 empty_DB ?milk] 3 4
  show ?thesis by blast
qed

section \<open>PUT /todo/:id\<close>

lemma Find_ok_row:
  assumes "TodoRepository_Find db i = (todo, None)"
  shows "database_Find db i = (todo, None) \<and> Name todo \<noteq> [] \<and> int (ID todo) = i \<and> live todo"
proof -
  obtain t e where d: "database_Find db i = (t, e)" by (cases "database_Find db i")
  with assms have "t = todo" "Name todo \<noteq> []" "e = None"
    by (auto simp: TodoRepository_Find_def split: if_splits)
  with d database_Find_row [of db i todo] show ?thesis by (simp add: matches_def)
qed

lemma filter_map_preserve:
  "(\<And>x. P (f x) = P x) \<Longrightarrow> filter P (map f xs) = map f (filter P xs)"
  by (induction xs) auto

lemma database_Save_rows:
  "rows (snd (database_Save now user db)) =
     map (\<lambda>r. if live r \<and> ID r = ID user
               then r\<lparr>Name := Name user, Description := Description user,
                      Status := Status user, UpdatedAt := now\<rparr>
               else r) (rows db)"
  by (simp add: database_Save_def)

lemma database_Save_Find:
  assumes "database_Find db i = (todo, None)" and "ID user = ID todo"
  shows "database_Find (snd (database_Save now user db)) i =
           (todo\<lparr>Name := Name user, Description := Description user,
                  Status := Status user, UpdatedAt := now\<rparr>, None)"
proof -
  let ?f = "\<lambda>r. if live r \<and> ID r = ID user
               then r\<lparr>Name := Name user, Description := Description user,
                      Status := Status user, UpdatedAt := now\<rparr>
               else r"
  from assms(1) obtain rs where f: "filter (matches i) (rows db) = todo # rs"
    by (auto simp: database_Find_def split: list.splits)
  from database_Find_row [OF assms(1)] have l: "live todo" by (simp add: matches_def)
  have "matches i (?f x) = matches i x" for x
    by (simp add: matches_def live_def)
  then have "filter (matches i) (map ?f (rows db)) = map ?f (filter (matches i) (rows db))"
    by (rule filter_map_preserve)
  with f l assms(2) show ?thesis
    by (simp add: database_Find_def database_Save_rows)
qed

lemma database_Save_ids:
  "map ID (rows (snd (database_Save now user db))) = map ID (rows db) \<and>
   seq (snd (database_Save now user db)) = seq db"
  by (simp add: database_Save_def comp_def if_distrib)

lemma Update_ok:
  assumes "Atoi (Params_id c) = (i, None)" and "TodoRepository_Find db i = (todo, None)"
    and "Body c = Object obj"
  shows "TodoHandler_Update now c db =
     (\<lparr>status = 200,
       body = JTodo (todo\<lparr>Name := unmarshal_key (json_name obj) [],
                          Description := unmarshal_key (json_description obj) [],
                          Status := unmarshal_key (json_status obj) []\<rparr>)\<rparr>,
      snd (database_Save now (todo\<lparr>Name := unmarshal_key (json_name obj) [],
                                     Description := unmarshal_key (json_description obj) [],
                                     Status := unmarshal_key (json_status obj) []\<rparr>) db))"
  using assms
  by (simp add: TodoHandler_Update_def BodyParser_Object TodoRepository_Save_def
      database_Save_def Let_def)

lemma Update_cases:
  "(\<exists>e. snd (Atoi (Params_id c)) = Some e \<and> status (fst (TodoHandler_Update now c db)) = 400 \<and>
        snd (TodoHandler_Update now c db) = db) \<or>
   (\<exists>e. snd (Atoi (Params_id c)) = None \<and>
        snd (TodoRepository_Find db (fst (Atoi (Params_id c)))) = Some e \<and>
        status (fst (TodoHandler_Update now c db)) = 404 \<and> snd (TodoHandler_Update now c db) = db) \<or>
   (snd (Atoi (Params_id c)) = None \<and>
        snd (TodoRepository_Find db (fst (Atoi (Params_id c)))) = None \<and> Body c = Malformed \<and>
        status (fst (TodoHandler_Update now c db)) = 400 \<and> snd (TodoHandler_Update now c db) = db) \<or>
   (\<exists>obj. snd (Atoi (Params_id c)) = None \<and>
        snd (TodoRepository_Find db (fst (Atoi (Params_id c)))) = None \<and> Body c = Object obj \<and>
        status (fst (TodoHandler_Update now c db)) = 200)"
proof -
  obtain i ae where a: "Atoi (Params_id c) = (i, ae)" by (cases "Atoi (Params_id c)")
  obtain todo fe where f: "TodoRepository_Find db i = (todo, fe)" by (cases "TodoRepository_Find db i")
  show ?thesis
  proof (cases ae)
    case (Some e)
    with a show ?thesis by (simp add: TodoHandler_Update_def)
  next
    case None
    note an = this
    show ?thesis
    proof (cases fe)
      case (Some e)
      with a an f show ?thesis by (simp add: TodoHandler_Update_def)
    next
      case None
      note fn = this
      show ?thesis
      proof (cases "Body c")
        case Malformed
        with a an f fn show ?thesis
          by (simp add: TodoHandler_Update_def BodyParser_Malformed)
      next
        case (Object obj)
        from Update_ok [OF a [unfolded an] f [unfolded fn] Object, of now] a an f fn Object
        show ?thesis by simp
      qed
    qed
  qed
qed



text \<open>
  C9. After a PUT that answers 200, every row of the table has the id it had before:
  the row stored under the requested id before the update and the row stored under
  it afterwards have the same id, which is also the id of the todo in the response.
\<close>

theorem Update_keeps_id:
  assumes "TodoHandler_Update now c db = (resp, db')" and "status resp = 200"
  shows "map ID (rows db') = map ID (rows db) \<and>
         (\<exists>todo todo' item.
            TodoRepository_Find db (fst (Atoi (Params_id c))) = (todo, None) \<and>
            database_Find db' (fst (Atoi (Params_id c))) = (todo', None) \<and>
            body resp = JTodo item \<and>
            ID todo' = ID todo \<and> ID item = ID todo \<and> int (ID todo) = fst (Atoi (Params_id c)))"
proof -
  from Update_cases [of c now db] assms
  obtain obj where a: "snd (Atoi (Params_id c)) = None"
    and f: "snd (TodoRepository_Find db (fst (Atoi (Params_id c)))) = None"
    and b: "Body c = Object obj"
    by auto
  from a obtain i where a': "Atoi (Params_id c) = (i, None)"
    by (cases "Atoi (Params_id c)") auto
  from f a' obtain todo where f': "TodoRepository_Find db i = (todo, None)"
    by (cases "TodoRepository_Find db i") auto
  let ?new = "todo\<lparr>Name := unmarshal_key (json_name obj) [],
                    Description := unmarshal_key (json_description obj) [],
                    Status := unmarshal_key (json_status obj) []\<rparr>"
  from Update_ok [OF a' f' b, of now] assms(1)
  have resp: "body resp = JTodo ?new"
    and db': "db' = snd (database_Save now ?new db)"
    by auto
  from Find_ok_row [OF f'] have d: "database_Find db i = (todo, None)" and i: "int (ID todo) = i"
    by simp_all
  from database_Save_Find [OF d, of ?new now]
  have "database_Find db' i = (?new\<lparr>UpdatedAt := now\<rparr>, None)"
    by (simp add: db')
  moreover have "map ID (rows db') = map ID (rows db)"
    by (simp add: db' database_Save_ids)
  ultimately show ?thesis using f' resp i by (simp add: a')
qed

lemma rename_dog_Update:
  "TodoHandler_Update 9 rename_dog two_DB =
     (\<lparr>status = 200,
       body = JTodo \<lparr>ID = 2, CreatedAt = 6, UpdatedAt = 6, DeletedAt = None,
                     Name = ''Walk the cat'', Description = [], Status = []\<rparr>\<rparr>,
      \<lparr>rows = [buy_milk\<lparr>ID := 1, CreatedAt := 5, UpdatedAt := 5\<rparr>,
               \<lparr>ID = 2, CreatedAt = 6, UpdatedAt = 9, DeletedAt = None,
                Name = ''Walk the cat'', Description = [], Status = []\<rparr>],
       seq = 2\<rparr>)"
proof -
  have a: "Atoi (Params_id rename_dog) = (2, None)"
    by (simp add: rename_dog_def Atoi_2)
  have b: "Body rename_dog = Object \<lparr>json_name = Some ''Walk the cat'', json_description = None,
                             json_status = None\<rparr>"
    by (simp add: rename_dog_def)
  show ?thesis
    unfolding Update_ok [OF a two_DB_Find_2 b]
    by (simp add: database_Save_def two_DB_def two_created_def unmarshal_key_def live_def
        buy_milk_def walk_dog_def zero_Todo_def)
qed

theorem Update_keeps_id_witness:
  "status (fst (TodoHandler_Update 9 rename_dog two_DB)) = 200 \<and>
   map ID (rows two_DB) = [1, 2] \<and>
   map ID (rows (snd (TodoHandler_Update 9 rename_dog two_DB))) = [1, 2] \<and>
   (\<exists>todo todo' item.
      TodoRepository_Find two_DB (fst (Atoi (Params_id rename_dog))) = (todo, None) \<and>
      database_Find (snd (TodoHandler_Update 9 rename_dog two_DB))
        (fst (Atoi (Params_id rename_dog))) = (todo', None) \<and>
      body (fst (TodoHandler_Update 9 rename_dog two_DB)) = JTodo item \<and>
      ID todo' = ID todo \<and> ID item = ID todo \<and>
      int (ID todo) = fst (Atoi (Params_id rename_dog)))"
proof -
  have h: "TodoHandler_Update 9 rename_dog two_DB =
      (fst (TodoHandler_Update 9 rename_dog two_DB), snd (TodoHandler_Update 9 rename_dog two_DB))"
    by simp
  have s: "status (fst (TodoHandler_Update 9 rename_dog two_DB)) = 200"
    by (simp add: rename_dog_Update)
  have i: "map ID (rows two_DB) = [1, 2]"
    by (simp add: two_DB_rows buy_milk_def walk_dog_def zero_Todo_def)
  from Update_keeps_id [OF h s] s i show ?thesis
    by simp
qed

text \<open>
  C10. A PUT whose id does not parse answers 400, one whose row \<open>Find\<close> does not
  retrieve answers 404, one whose body does not deserialize answers 400, and in each
  case the store is left as it was. More generally a PUT that answers 400 or 404
  leaves the store as it was.
\<close>

theorem Update_error_keeps_store:
  assumes "TodoHandler_Update now c db = (resp, db')"
  shows "(snd (Atoi (Params_id c)) \<noteq> None \<longrightarrow> status resp = 400 \<and> db' = db) \<and>
         (snd (Atoi (Params_id c)) = None \<and>
          snd (TodoRepository_Find db (fst (Atoi (Params_id c)))) \<noteq> None \<longrightarrow>
            status resp = 404 \<and> db' = db) \<and>
         (snd (Atoi (Params_id c)) = None \<and>
          snd (TodoRepository_Find db (fst (Atoi (Params_id c)))) = None \<and> Body c = Malformed \<longrightarrow>
            status resp = 400 \<and> db' = db) \<and>
         (status resp = 400 \<or> status resp = 404 \<longrightarrow> db' = db)"
  using Update_cases [of c now db] assms by auto

theorem Update_error_keeps_store_witness:
  "snd (Atoi (Params_id \<lparr>Params_id = ''abc'', Body = Body rename_dog\<rparr>)) \<noteq> None \<and>
   TodoHandler_Update 9 \<lparr>Params_id = ''abc'', Body = Body rename_dog\<rparr> two_DB =
     (fst (TodoHandler_Update 9 \<lparr>Params_id = ''abc'', Body = Body rename_dog\<rparr> two_DB), two_DB) \<and>
   status (fst (TodoHandler_Update 9 \<lparr>Params_id = ''abc'', Body = Body rename_dog\<rparr> two_DB)) = 400 \<and>
   snd (Atoi (Params_id \<lparr>Params_id = ''7'', Body = Body rename_dog\<rparr>)) = None \<and>
   snd (TodoRepository_Find two_DB
         (fst (Atoi (Params_id \<lparr>Params_id = ''7'', Body = Body rename_dog\<rparr>)))) \<noteq> None \<and>
   TodoHandler_Update 9 \<lparr>Params_id = ''7'', Body = Body rename_dog\<rparr> two_DB =
     (fst (TodoHandler_Update 9 \<lparr>Params_id = ''7'', Body = Body rename_dog\<rparr> two_DB), two_DB) \<and>
   status (fst (TodoHandler_Update 9 \<lparr>Params_id = ''7'', Body = Body rename_dog\<rparr> two_DB)) = 404 \<and>
   snd (Atoi (Params_id \<lparr>Params_id = ''2'', Body = Malformed\<rparr>)) = None \<and>
   snd (TodoRepository_Find two_DB
         (fst (Atoi (Params_id \<lparr>Params_id = ''2'', Body = Malformed\<rparr>)))) = None \<and>
   Body \<lparr>Params_id = ''2'', Body = Malformed\<rparr> = Malformed \<and>
   TodoHandler_Update 9 \<lparr>Params_id = ''2'', Body = Malformed\<rparr> two_DB =
     (fst (TodoHandler_Update 9 \<lparr>Params_id = ''2'', Body = Malformed\<rparr> two_DB), two_DB) \<and>
   status (fst (TodoHandler_Update 9 \<lparr>Params_id = ''2'', Body = Malformed\<rparr> two_DB)) = 400"
proof -
  let ?c1 = "\<lparr>Params_id = ''abc'', Body = Body rename_dog\<rparr>"
  let ?c2 = "\<lparr>Params_id = ''7'', Body = Body rename_dog\<rparr>"
  let ?c3 = "\<lparr>Params_id = ''2'', Body = Malformed\<rparr>"
  have p: "TodoHandler_Update 9 c two_DB =
      (fst (TodoHandler_Update 9 c two_DB), snd (TodoHandler_Update 9 c two_DB))" for c
    by simp
  have 1: "snd (Atoi (Params_id ?c1)) \<noteq> None"
    by (simp add: Atoi_abc)
  have 2: "snd (Atoi (Params_id ?c2)) = None \<and>
           snd (TodoRepository_Find two_DB (fst (Atoi (Params_id ?c2)))) \<noteq> None"
    using Find_none [OF two_DB_no_7] by (simp add: Atoi_7)
  have 3: "snd (Atoi (Params_id ?c3)) = None \<and>
           snd (TodoRepository_Find two_DB (fst (Atoi (Params_id ?c3)))) = None \<and>
           Body ?c3 = Malformed"
    by (simp add: Atoi_2 two_DB_Find_2)
  from Update_error_keeps_store [OF p [of ?c1]] 1
  have r1: "status (fst (TodoHandler_Update 9 ?c1 two_DB)) = 400 \<and>
            snd (TodoHandler_Update 9 ?c1 two_DB) = two_DB"
    by blast
  from Update_error_keeps_store [OF p [of ?c2]] 2
  have r2: "status (fst (TodoHandler_Update 9 ?c2 two_DB)) = 404 \<and>
            snd (TodoHandler_Update 9 ?c2 two_DB) = two_DB"
    by blast
  from Update_error_keeps_store [OF p [of ?c3]] 3
  have r3: "status (fst (TodoHandler_Update 9 ?c3 two_DB)) = 400 \<and>
            snd (TodoHandler_Update 9 ?c3 two_DB) = two_DB"
    by blast
  from 1 2 3 r1 r2 r3 show ?thesis
    by (simp add: prod_eq_iff)
qed

section \<open>The invariant holds in every reachable state\<close>

lemma store_wf_ids:
  "store_wf db =
     (list_all (\<lambda>n. 0 < n \<and> n \<le> seq db) (map ID (rows db)) \<and> distinct (map ID (rows db)))"
  by (simp add: store_wf_def list_all_iff)

lemma store_wf_same_ids:
  "store_wf db \<Longrightarrow> map ID (rows db') = map ID (rows db) \<Longrightarrow> seq db' = seq db \<Longrightarrow> store_wf db'"
  by (simp add: store_wf_ids)

lemma database_Delete_ids:
  "map ID (rows (snd (database_Delete now i db))) = map ID (rows db) \<and>
   seq (snd (database_Delete now i db)) = seq db"
  by (simp add: database_Delete_def comp_def if_distrib)

lemma TodoHandler_Create_wf:
  assumes "store_wf db"
  shows "store_wf (snd (TodoHandler_Create now c db))"
proof (cases "BodyParser c zero_Todo")
  case (Pair data e)
  show ?thesis
  proof (cases e)
    case (Some x)
    with Pair assms show ?thesis by (simp add: TodoHandler_Create_def)
  next
    case None
    obtain r db' where c: "TodoRepository_Create now data db = (r, db')"
      by (cases "TodoRepository_Create now data db")
    from Create_wf [OF assms c] have "store_wf db'" .
    with Pair None c show ?thesis
      by (simp add: TodoHandler_Create_def split: prod.splits option.splits)
  qed
qed

lemma TodoHandler_Update_ids:
  "map ID (rows (snd (TodoHandler_Update now c db))) = map ID (rows db) \<and>
   seq (snd (TodoHandler_Update now c db)) = seq db"
proof -
  obtain resp db' where u: "TodoHandler_Update now c db = (resp, db')"
    by (cases "TodoHandler_Update now c db")
  show ?thesis
  proof (cases "status resp = 200")
    case True
    from Update_cases [of c now db] u True
    obtain obj where a: "snd (Atoi (Params_id c)) = None"
      and f: "snd (TodoRepository_Find db (fst (Atoi (Params_id c)))) = None"
      and b: "Body c = Object obj"
      by auto
    from a obtain i where a': "Atoi (Params_id c) = (i, None)"
      by (cases "Atoi (Params_id c)") auto
    from f a' obtain todo where f': "TodoRepository_Find db i = (todo, None)"
      by (cases "TodoRepository_Find db i") auto
    show ?thesis
      by (simp add: Update_ok [OF a' f' b] database_Save_ids)
  next
    case False
    with Update_cases [of c now db] u have "db' = db" by auto
    with u show ?thesis by simp
  qed
qed

lemma TodoHandler_Delete_ids:
  "map ID (rows (snd (TodoHandler_Delete now c db))) = map ID (rows db) \<and>
   seq (snd (TodoHandler_Delete now c db)) = seq db"
proof (cases "Atoi (Params_id c)")
  case (Pair i e)
  show ?thesis
  proof (cases e)
    case None
    with Pair show ?thesis
      by (simp add: TodoHandler_Delete_parsed TodoRepository_Delete_def database_Delete_ids)
  next
    case (Some x)
    with Pair show ?thesis by (simp add: TodoHandler_Delete_def)
  qed
qed

lemma reachable_store_wf: "reachable db \<Longrightarrow> store_wf db"
proof (induction rule: reachable.induct)
  case reachable_empty
  show ?case by (rule empty_wf)
next
  case (reachable_Create db now c)
  then show ?case by (simp add: TodoHandler_Create_wf)
next
  case (reachable_Update db now c)
  then show ?case using TodoHandler_Update_ids [of now c db] by (blast intro: store_wf_same_ids)
next
  case (reachable_Delete db now c)
  then show ?case using TodoHandler_Delete_ids [of now c db] by (blast intro: store_wf_same_ids)
qed

text \<open>
  A row with an empty name is in reach of the service: a POST with a name, then a PUT
  on the new id whose body omits the name.
\<close>

lemma Atoi_1: "Atoi ''1'' = (1, None)"
  by (simp add: Atoi_def ParseInt_def ParseUint_def is_digit_def digit_def maxUint64_def)

lemma nameless_DB_run:
  "snd (TodoHandler_Update 9
          \<lparr>Params_id = ''1'',
           Body = Object \<lparr>json_name = None, json_description = None,
                          json_status = Some ''pending''\<rparr>\<rparr>
          (snd (TodoHandler_Create 5
                  \<lparr>Params_id = [],
                   Body = Object \<lparr>json_name = Some ''Buy milk'', json_description = None,
                                  json_status = Some ''pending''\<rparr>\<rparr>
                  empty_DB))) = nameless_DB"
  by (simp add: TodoHandler_Update_def TodoHandler_Create_def BodyParser_def unmarshal_key_def
      TodoRepository_Create_eq database_Create_def TodoRepository_Find_def database_Find_def
      TodoRepository_Save_def database_Save_def Atoi_1 matches_def live_def Let_def
      empty_DB_def zero_Todo_def nameless_DB_def nameless_def)

lemma nameless_DB_reachable: "reachable nameless_DB"
  unfolding nameless_DB_run [symmetric]
  by (intro reachable_Update reachable_Create reachable_empty)

end
